theory Spec2Isabelle
  imports Complex_Main "HOL-Library.Sublist" "HOL-Library.AList"
begin

section \<open>Python values and built-ins used by app.py\<close>

text \<open>
  The metadata handled by app.py is whatever \<^verbatim>\<open>json.loads\<close> returns: nested dicts, lists
  and scalars. A dict is an association list of its items (looked up with \<open>map_of\<close>).
  Python floats are idealised as rationals: rounding, overflow, infinities and NaN are not
  part of the model. Strings are lists of characters and the string built-ins below are the
  Python ones on ASCII text.
\<close>

datatype json =
    JNull
  | JBool bool
  | JInt int
  | JFloat rat
  | JStr string
  | JList "json list"
  | JDict "(string \<times> json) list"

type_synonym pydict = "(string \<times> json) list"

text \<open>
  The exceptions that the modelled functions can raise. \<open>Unmodelled\<close> marks a Python
  conversion whose result this development does not compute (the text of a float or of a
  container, a number parsed from a string); no statement is made about such inputs.
\<close>

datatype error =
    TypeError
  | ValueError
  | AttributeError
  | KeyError
  | IndexError
  | DownloaderError string
  | Unmodelled

definition ebind :: "error + 'a \<Rightarrow> ('a \<Rightarrow> error + 'b) \<Rightarrow> error + 'b" where
  "ebind m f = (case m of Inl e \<Rightarrow> Inl e | Inr x \<Rightarrow> f x)"



text \<open>\<^verbatim>\<open>d.get(key)\<close>: the value, or None when the key is absent.\<close>

definition dict_get :: "pydict \<Rightarrow> string \<Rightarrow> json" where
  "dict_get d k = (case map_of d k of None \<Rightarrow> JNull | Some v \<Rightarrow> v)"

text \<open>Truth value testing, as \<^verbatim>\<open>if x\<close>, \<^verbatim>\<open>not x\<close> and \<^verbatim>\<open>x or y\<close> use it.\<close>

fun py_truthy :: "json \<Rightarrow> bool" where
  "py_truthy JNull = False"
| "py_truthy (JBool b) = b"
| "py_truthy (JInt i) = (i \<noteq> 0)"
| "py_truthy (JFloat r) = (r \<noteq> 0)"
| "py_truthy (JStr s) = (s \<noteq> [])"
| "py_truthy (JList xs) = (xs \<noteq> [])"
| "py_truthy (JDict d) = (d \<noteq> [])"


text \<open>\<^verbatim>\<open>for x in v\<close>: a list yields its elements, a string its characters, a dict its keys.\<close>

fun py_iter :: "json \<Rightarrow> error + json list" where
  "py_iter (JList xs) = Inr xs"
| "py_iter (JStr s) = Inr (map (\<lambda>c. JStr [c]) s)"
| "py_iter (JDict d) = Inr (map (\<lambda>kv. JStr (fst kv)) d)"
| "py_iter _ = Inl TypeError"

definition py_isspace :: "char \<Rightarrow> bool" where
  "py_isspace c = (let n = (of_char c :: nat) in (9 \<le> n \<and> n \<le> 13) \<or> (28 \<le> n \<and> n \<le> 32))"

definition py_strip :: "string \<Rightarrow> string" where
  "py_strip s = rev (dropWhile py_isspace (rev (dropWhile py_isspace s)))"

definition py_lower_char :: "char \<Rightarrow> char" where
  "py_lower_char c = (let n = (of_char c :: nat) in if 65 \<le> n \<and> n \<le> 90 then char_of (n + 32) else c)"


definition py_lower :: "string \<Rightarrow> string" where
  "py_lower s = map py_lower_char s"


text \<open>\<^verbatim>\<open>needle in text\<close> on strings, \<^verbatim>\<open>s.endswith(t)\<close>, \<^verbatim>\<open>s.split(c)\<close> and \<^verbatim>\<open>sep.join(parts)\<close>.\<close>

fun py_contains :: "string \<Rightarrow> string \<Rightarrow> bool" where
  "py_contains needle [] = (needle = [])"
| "py_contains needle (c # cs) = (prefix needle (c # cs) \<or> py_contains needle cs)"

definition py_endswith :: "string \<Rightarrow> string \<Rightarrow> bool" where
  "py_endswith s t = suffix t s"

fun py_split :: "char \<Rightarrow> string \<Rightarrow> string list" where
  "py_split sep [] = [[]]"
| "py_split sep (c # cs) =
     (if c = sep then [] # py_split sep cs
      else (case py_split sep cs of p # ps \<Rightarrow> (c # p) # ps | [] \<Rightarrow> [[c]]))"


text \<open>The decimal text of an integer, as \<^verbatim>\<open>str(n)\<close> and an f-string print it.\<close>

fun string_of_nat :: "nat \<Rightarrow> string" where
  "string_of_nat n =
     (if n < 10 then [char_of (48 + n)]
      else string_of_nat (n div 10) @ [char_of (48 + n mod 10)])"

declare string_of_nat.simps [simp del]

definition py_str_int :: "int \<Rightarrow> string" where
  "py_str_int i = (if i < 0 then CHR ''-'' # string_of_nat (nat (- i)) else string_of_nat (nat i))"






section \<open>Entry flattening\<close>

text \<open>
  \<^verbatim>\<open>flatten_entries\<close> (app.py, lines 255-270). The loop over \<^verbatim>\<open>entries\<close> is
  \<open>flatten_loop\<close>, with \<^verbatim>\<open>flat\<close> as its accumulator; \<^verbatim>\<open>entry.get\<close> on a value that is not a
  dict raises AttributeError.
\<close>

fun flatten_loop :: "json list \<Rightarrow> json list \<Rightarrow> error + json list" where
  "flatten_loop [] flat = Inr flat"
| "flatten_loop (entry # rest) flat =
     (if \<not> py_truthy entry then flatten_loop rest flat
      else (case entry of
              JDict d \<Rightarrow>
                (let nested = dict_get d ''entries''
                 in if py_truthy nested
                    then ebind (py_iter nested)
                           (\<lambda>items. flatten_loop rest (flat @ filter py_truthy items))
                    else flatten_loop rest (flat @ [entry]))
            | _ \<Rightarrow> Inl AttributeError))"

definition flatten_entries :: "pydict \<Rightarrow> error + json list" where
  "flatten_entries info =
     (let entries = dict_get info ''entries''
      in if \<not> py_truthy entries then Inr [JDict info]
         else ebind (py_iter entries)
                (\<lambda>es. ebind (flatten_loop es [])
                   (\<lambda>flat. Inr (if flat \<noteq> [] then flat else [JDict info]))))"

section \<open>Title normalisation\<close>



section \<open>URL classification\<close>

text \<open>
  \<^verbatim>\<open>urllib.parse.urlparse\<close> is library code: the functions below take it as the parameter
  \<open>urlparse\<close>, with \<open>None\<close> for the ValueError it raises on a malformed URL. Of a
  ParseResult only the fields that app.py reads are kept.
\<close>

record parse_result =
  scheme :: string
  netloc :: string
  path :: string

definition SUPPORTED_PLATFORMS :: "(string \<times> string list) list" where
  "SUPPORTED_PLATFORMS =
     [(''Instagram'', [''instagram.com'']),
      (''YouTube'', [''youtube.com'', ''youtu.be'']),
      (''Facebook'', [''facebook.com'', ''fb.watch'']),
      (''Loom'', [''loom.com''])]"

text \<open>\<^verbatim>\<open>parse_web_url\<close> (lines 40-52).\<close>

definition parse_web_url ::
  "(string \<Rightarrow> parse_result option) \<Rightarrow> string \<Rightarrow> (parse_result \<times> string) option" where
  "parse_web_url urlparse url =
     (if url = [] then None
      else (case urlparse (py_strip url) of
              None \<Rightarrow> None
            | Some parsed \<Rightarrow>
                (let host = hd (py_split (CHR '':'') (py_lower (netloc parsed)))
                 in if scheme parsed \<notin> {''http'', ''https''} \<or> host = [] then None
                    else Some (parsed, host))))"

text \<open>\<^verbatim>\<open>host_matches\<close> (lines 55-56).\<close>

definition host_matches :: "string \<Rightarrow> string \<Rightarrow> bool" where
  "host_matches host root_domain =
     (host = root_domain \<or> py_endswith host (''.'' @ root_domain))"

text \<open>\<^verbatim>\<open>detect_platform\<close> (lines 59-68): the first platform of the table with a matching domain.\<close>

definition detect_platform :: "(string \<Rightarrow> parse_result option) \<Rightarrow> string \<Rightarrow> string option" where
  "detect_platform urlparse url =
     (case parse_web_url urlparse url of
        None \<Rightarrow> None
      | Some (parsed, host) \<Rightarrow>
          map_option fst
            (find (\<lambda>(platform, domains). list_ex (host_matches host) domains)
               SUPPORTED_PLATFORMS))"

section \<open>Running the extractor\<close>

text \<open>
  \<^verbatim>\<open>subprocess.run\<close> is the parameter \<open>run\<close>: from the state of the outside world and a
  command it gives the completed process and the world afterwards, so that every
  invocation is visible in the world that a function returns.
\<close>

record proc =
  returncode :: int
  stdout :: string
  stderr :: string

text \<open>\<^verbatim>\<open>is_certificate_verify_error\<close> (lines 35-37).\<close>

definition is_certificate_verify_error :: "string \<Rightarrow> bool" where
  "is_certificate_verify_error message =
     (let text = py_lower message
      in py_contains ''certificate_verify_failed'' text \<or>
         py_contains ''unable to get local issuer certificate'' text)"

text \<open>\<^verbatim>\<open>(proc.stderr or proc.stdout or default).strip()\<close>, as lines 99, 116 and 343 compute it.\<close>

definition proc_message :: "string \<Rightarrow> proc \<Rightarrow> string" where
  "proc_message dflt p =
     py_strip (if stderr p \<noteq> [] then stderr p else if stdout p \<noteq> [] then stdout p else dflt)"

text \<open>\<^verbatim>\<open>xs.insert(i, x)\<close> for an index \<open>i \<ge> 0\<close>.\<close>

definition py_insert :: "nat \<Rightarrow> 'a \<Rightarrow> 'a list \<Rightarrow> 'a list" where
  "py_insert i x xs = take i xs @ x # drop i xs"

text \<open>\<^verbatim>\<open>run_yt_dlp_command\<close> (lines 94-108).\<close>

definition run_yt_dlp_command ::
  "('w \<Rightarrow> string list \<Rightarrow> proc \<times> 'w) \<Rightarrow> string list \<Rightarrow> 'w \<Rightarrow> proc \<times> 'w" where
  "run_yt_dlp_command run cmd w =
     (case run w cmd of
        (p, w1) \<Rightarrow>
          if returncode p = 0 then (p, w1)
          else (let message = proc_message ''yt-dlp failed'' p
                in if ''--no-check-certificates'' \<notin> set cmd \<and> is_certificate_verify_error message
                   then (let retry_cmd = py_insert 1 ''--no-check-certificates'' cmd
                         in run w1 retry_cmd)
                   else (p, w1)))"

text \<open>
  \<^verbatim>\<open>yt_dlp_base_args\<close> (lines 86-91); \<open>cookies_env\<close> is the value of the environment
  variable YTDLP_COOKIES_FILE, \<open>None\<close> when it is not set.
\<close>

definition yt_dlp_base_args :: "string option \<Rightarrow> string list" where
  "yt_dlp_base_args cookies_env =
     (let cookies_file = py_strip (case cookies_env of None \<Rightarrow> [] | Some v \<Rightarrow> v)
      in [''yt-dlp'', ''--no-warnings''] @
         (if cookies_file \<noteq> [] then [''--cookies'', cookies_file] else []))"

section \<open>The download job\<close>

text \<open>
  What \<^verbatim>\<open>output_dir.rglob("*")\<close> yields is the parameter \<open>rglob\<close>: the paths below a
  directory in the given world, each with what \<^verbatim>\<open>is_file()\<close> and \<^verbatim>\<open>stat().st_mtime\<close>
  report for it. \<^verbatim>\<open>path.name\<close> is the final component of the path.
\<close>

record dir_entry =
  entry_path :: string
  is_file :: bool
  st_mtime :: rat

definition path_name :: "string \<Rightarrow> string" where
  "path_name p = rev (takeWhile (\<lambda>c. c \<noteq> CHR ''/'') (rev p))"

text \<open>Lines 329-339 of \<^verbatim>\<open>run_download\<close>: the command of the download.\<close>

definition download_cmd ::
  "string option \<Rightarrow> string \<Rightarrow> int \<Rightarrow> int option \<Rightarrow> string \<Rightarrow> string option \<Rightarrow> string list" where
  "download_cmd cookies_env url item_count index output_dir format_selector =
     (let cmd = yt_dlp_base_args cookies_env;
          cmd = cmd @ [''--restrict-filenames'', ''-P'', output_dir, ''-o'', ''%(title).80s.%(ext)s''];
          cmd = (case format_selector of
                   None \<Rightarrow> cmd
                 | Some fs \<Rightarrow> if fs \<noteq> [] then cmd @ [''-f'', fs] else cmd);
          cmd = (case index of
                   Some i \<Rightarrow>
                     if item_count > 1 then cmd @ [''--playlist-items'', py_str_int i]
                     else if item_count \<le> 1 then cmd @ [''--no-playlist''] else cmd
                 | None \<Rightarrow> if item_count \<le> 1 then cmd @ [''--no-playlist''] else cmd)
      in cmd @ [url])"

text \<open>
  \<^verbatim>\<open>run_download\<close> (lines 322-351) from line 341 on. \<^verbatim>\<open>files.sort(key=..., reverse=True)\<close>
  is a stable sort on the negated key.
\<close>

definition run_download ::
  "('w \<Rightarrow> string list \<Rightarrow> proc \<times> 'w) \<Rightarrow> ('w \<Rightarrow> string \<Rightarrow> dir_entry list) \<Rightarrow> string option \<Rightarrow>
   string \<Rightarrow> int \<Rightarrow> int option \<Rightarrow> string \<Rightarrow> string option \<Rightarrow> 'w \<Rightarrow> error + dir_entry" where
  "run_download run rglob cookies_env url item_count index output_dir format_selector w =
     (case run_yt_dlp_command run
             (download_cmd cookies_env url item_count index output_dir format_selector) w of
        (p, w1) \<Rightarrow>
          if returncode p \<noteq> 0 then Inl (DownloaderError (proc_message ''Download failed'' p))
          else (let files = filter (\<lambda>e. is_file e \<and> \<not> py_endswith (path_name (entry_path e)) ''.part'')
                              (rglob w1 output_dir)
                in if files = [] then Inl (DownloaderError ''Download finished but no file was produced.'')
                   else (case sort_key (\<lambda>e. - st_mtime e) files of
                           f # _ \<Rightarrow> Inr f
                         | [] \<Rightarrow> Inl IndexError)))"

section \<open>Format selection\<close>
























section \<open>The host of a URL, and sample process runners\<close>

text \<open>
  Following the specification's words, not the code: the host of a URL, lower-cased and
  without its port. The authority of a URL is \<^verbatim>\<open>userinfo@host:port\<close> with the user
  information and the port optional, and \<^verbatim>\<open>ParseResult.netloc\<close> is this authority; the
  host is what follows the last \<^verbatim>\<open>@\<close>, up to the colon of the port.
\<close>

definition url_host_spec :: "string \<Rightarrow> string" where
  "url_host_spec authority =
     py_lower (takeWhile (\<lambda>c. c \<noteq> CHR '':'')
                 (rev (takeWhile (\<lambda>c. c \<noteq> CHR ''@'') (rev authority))))"

text \<open>
  Two runners to evaluate \<open>run_yt_dlp_command\<close> on. The first fails with a certificate
  error unless verification is switched off, and its world is the list of the commands
  run so far; the second always fails with a certificate error, and its world counts the
  invocations.
\<close>

definition tls_then_ok :: "string list list \<Rightarrow> string list \<Rightarrow> proc \<times> string list list" where
  "tls_then_ok trace cmd =
     (if ''--no-check-certificates'' \<in> set cmd
      then (\<lparr>returncode = 0, stdout = ''{}'', stderr = []\<rparr>, trace @ [cmd])
      else (\<lparr>returncode = 1, stdout = [],
             stderr = ''ERROR: [SSL: CERTIFICATE_VERIFY_FAILED] certificate verify failed''\<rparr>,
            trace @ [cmd]))"

definition tls_always :: "nat \<Rightarrow> string list \<Rightarrow> proc \<times> nat" where
  "tls_always n cmd =
     (\<lparr>returncode = 1, stdout = [],
       stderr = ''ERROR: [SSL: CERTIFICATE_VERIFY_FAILED] certificate verify failed''\<rparr>, Suc n)"

section \<open>A sample item\<close>





section \<open>Properties of entry flattening\<close>

lemma flatten_loop_leaves:
  "\<forall>e \<in> set es. \<exists>d. e = JDict d \<and> map_of d ''entries'' = Some (JList []) \<Longrightarrow>
   flatten_loop es flat = Inr (flat @ es)"
proof (induction es arbitrary: flat)
  case Nil
  then show ?case by simp
next
  case (Cons e es)
  then obtain d where d: "e = JDict d" "map_of d ''entries'' = Some (JList [])"
    by auto
  then have ne: "d \<noteq> []" by auto
  have "flatten_loop (e # es) flat = flatten_loop es (flat @ [e])"
    using d ne by (simp add: dict_get_def)
  also have "\<dots> = Inr ((flat @ [e]) @ es)"
    using Cons by simp
  finally show ?case by simp
qed

text \<open>
  Claim C3, as amended. When every direct entry of the root is a dict that carries an empty
  nested entry list, \<open>flatten_entries\<close> returns these direct entries themselves, in
  their order: an entry whose nested list is empty is appended as it is (line 268). The
  result is \<open>[root]\<close> only when the root has no direct entry at all.
\<close>

theorem flatten_entries_empty_nested:
  assumes "dict_get info ''entries'' = JList es"
    and "\<forall>e \<in> set es. \<exists>d. e = JDict d \<and> map_of d ''entries'' = Some (JList [])"
  shows "flatten_entries info = Inr (if es = [] then [JDict info] else es)"
  using assms flatten_loop_leaves [of es "[]"]
  by (simp add: flatten_entries_def ebind_def)

text \<open>The amended claim C3 on a carousel of two entries with empty nested lists.\<close>

theorem flatten_entries_empty_nested_witness:
  "flatten_entries
     [(''id'', JStr ''carousel''),
      (''entries'', JList [JDict [(''entries'', JList [])],
                           JDict [(''id'', JStr ''b''), (''entries'', JList [])]])]
   = Inr [JDict [(''entries'', JList [])],
          JDict [(''id'', JStr ''b''), (''entries'', JList [])]]"
  using flatten_entries_empty_nested
    [of "[(''id'', JStr ''carousel''),
          (''entries'', JList [JDict [(''entries'', JList [])],
                               JDict [(''id'', JStr ''b''), (''entries'', JList [])]])]"
        "[JDict [(''entries'', JList [])],
          JDict [(''id'', JStr ''b''), (''entries'', JList [])]]"]
  by (simp add: dict_get_def)

text \<open>
  Claim C3 as the specification states it fails: for the root whose only entry carries an
  empty nested list, the result is that entry and not the root.
\<close>

theorem flatten_entries_root_fallback_counterexample:
  "dict_get [(''entries'', JList [JDict [(''entries'', JList [])]])] ''entries''
     = JList [JDict [(''entries'', JList [])]] \<and>
   flatten_entries [(''entries'', JList [JDict [(''entries'', JList [])]])]
     = Inr [JDict [(''entries'', JList [])]] \<and>
   flatten_entries [(''entries'', JList [JDict [(''entries'', JList [])]])]
     \<noteq> Inr [JDict [(''entries'', JList [JDict [(''entries'', JList [])]])]]"
  by (simp add: flatten_entries_def dict_get_def ebind_def)

section \<open>Properties of title normalisation\<close>




section \<open>Properties of the certificate retry\<close>

text \<open>
  Claim C6, as amended. Let the first run of the command give the process \<open>p\<close> and
  the world \<open>w1\<close>. If \<open>p\<close> succeeded it is returned. If it failed, the command does not
  already carry \<^verbatim>\<open>--no-check-certificates\<close> and the failure message matches a
  certificate-verification substring, the command is run exactly once more, from \<open>w1\<close>,
  with that flag inserted after the program name, and whatever this retry gives is the
  result. A failure whose message does not match, or of a command that already carries
  the flag, is returned at once: the world is \<open>w1\<close>, so nothing else was run.
\<close>

theorem run_yt_dlp_command_retry:
  assumes "run w cmd = (p, w1)"
  shows "(returncode p = 0 \<longrightarrow> run_yt_dlp_command run cmd w = (p, w1)) \<and>
         (returncode p \<noteq> 0 \<and> ''--no-check-certificates'' \<notin> set cmd \<and>
          is_certificate_verify_error (proc_message ''yt-dlp failed'' p) \<longrightarrow>
            run_yt_dlp_command run cmd w
              = run w1 (take 1 cmd @ ''--no-check-certificates'' # drop 1 cmd)) \<and>
         (returncode p \<noteq> 0 \<and> \<not> is_certificate_verify_error (proc_message ''yt-dlp failed'' p) \<longrightarrow>
            run_yt_dlp_command run cmd w = (p, w1)) \<and>
         (returncode p \<noteq> 0 \<and> ''--no-check-certificates'' \<in> set cmd \<longrightarrow>
            run_yt_dlp_command run cmd w = (p, w1))"
  using assms by (simp add: run_yt_dlp_command_def py_insert_def)

text \<open>
  The amended claim C6 on a runner that fails with a certificate error until verification
  is off: the two commands run are the original one and the one with the flag, and the
  retry's process is the result.
\<close>

theorem run_yt_dlp_command_retry_witness:
  "run_yt_dlp_command tls_then_ok [''yt-dlp'', ''--no-warnings'', ''https://youtu.be/x''] []
     = (\<lparr>returncode = 0, stdout = ''{}'', stderr = []\<rparr>,
        [[''yt-dlp'', ''--no-warnings'', ''https://youtu.be/x''],
         [''yt-dlp'', ''--no-check-certificates'', ''--no-warnings'', ''https://youtu.be/x'']])"
proof -
  let ?cmd = "[''yt-dlp'', ''--no-warnings'', ''https://youtu.be/x'']"
  let ?p = "\<lparr>returncode = 1, stdout = [],
             stderr = ''ERROR: [SSL: CERTIFICATE_VERIFY_FAILED] certificate verify failed''\<rparr>"
  have first: "tls_then_ok [] ?cmd = (?p, [?cmd])"
    by (simp add: tls_then_ok_def)
  have cert: "is_certificate_verify_error (proc_message ''yt-dlp failed'' ?p)"
    by code_simp
  have "run_yt_dlp_command tls_then_ok ?cmd []
          = tls_then_ok [?cmd] (take 1 ?cmd @ ''--no-check-certificates'' # drop 1 ?cmd)"
    using run_yt_dlp_command_retry [of tls_then_ok "[]" ?cmd ?p "[?cmd]"] first cert by simp
  then show ?thesis
    by (simp add: tls_then_ok_def)
qed

text \<open>
  Claim C6 as stated fails for a command that already carries the flag: the first run
  fails, its message matches, and yet the runner was invoked once only.
\<close>

theorem run_yt_dlp_command_no_retry_counterexample:
  "returncode (fst (tls_always 0 [''yt-dlp'', ''--no-check-certificates'', ''https://youtu.be/x''])) \<noteq> 0 \<and>
   is_certificate_verify_error
     (proc_message ''yt-dlp failed''
        (fst (tls_always 0 [''yt-dlp'', ''--no-check-certificates'', ''https://youtu.be/x'']))) \<and>
   snd (run_yt_dlp_command tls_always
          [''yt-dlp'', ''--no-check-certificates'', ''https://youtu.be/x''] 0) = 1"
  by code_simp

section \<open>Properties of the download job\<close>

lemma sort_key_head:
  assumes "sort_key k xs = f # rest"
  shows "f \<in> set xs \<and> (\<forall>g \<in> set xs. k f \<le> k g)"
proof -
  have "set (sort_key k xs) = set xs" by simp
  with assms have s: "set xs = insert f (set rest)" by simp
  have "sorted (map k (sort_key k xs))" by simp
  with assms have "\<forall>g \<in> set rest. k f \<le> k g" by simp
  with s show ?thesis by auto
qed

text \<open>
  Claim C8. Once the download command has exited with code 0, let \<open>files\<close> be the
  regular files found below the workspace whose name does not end in \<^verbatim>\<open>.part\<close>. If there
  is none, \<open>run_download\<close> fails with the DownloaderError "Download finished but no
  file was produced."; otherwise it returns one of these files, and no file of the list
  was modified later than it.
\<close>

theorem run_download_newest_file:
  assumes "run_yt_dlp_command run
             (download_cmd cookies_env url item_count index output_dir format_selector) w = (p, w1)"
    and "returncode p = 0"
    and "files = filter (\<lambda>e. is_file e \<and> \<not> py_endswith (path_name (entry_path e)) ''.part'')
                   (rglob w1 output_dir)"
  shows "(files = [] \<longrightarrow>
            run_download run rglob cookies_env url item_count index output_dir format_selector w
              = Inl (DownloaderError ''Download finished but no file was produced.'')) \<and>
         (files \<noteq> [] \<longrightarrow>
            (\<exists>f. run_download run rglob cookies_env url item_count index output_dir format_selector w
                   = Inr f \<and>
                 f \<in> set files \<and> (\<forall>g \<in> set files. st_mtime g \<le> st_mtime f)))"
proof (cases "files = []")
  case True
  then show ?thesis
    using assms by (simp add: run_download_def)
next
  case False
  then have "sort_key (\<lambda>e. - st_mtime e) files \<noteq> []"
    by (metis length_sort list.size(3) length_0_conv)
  then obtain f rest where fr: "sort_key (\<lambda>e. - st_mtime e) files = f # rest"
    by (cases "sort_key (\<lambda>e. - st_mtime e) files") auto
  from sort_key_head [OF fr] have "f \<in> set files" "\<forall>g \<in> set files. st_mtime g \<le> st_mtime f"
    by auto
  moreover have "run_download run rglob cookies_env url item_count index output_dir format_selector w = Inr f"
    using assms False fr by (simp add: run_download_def)
  ultimately show ?thesis using False by blast
qed

text \<open>
  Claim C8 on a workspace holding a finished file, a newer partial file, a directory and
  the newest finished file in a subdirectory: the last one is returned.
\<close>

theorem run_download_newest_file_witness:
  "run_download (\<lambda>w cmd. (\<lparr>returncode = 0, stdout = [], stderr = []\<rparr>, w))
     (\<lambda>w d. [\<lparr>entry_path = ''/tmp/job/clip.f137.mp4'', is_file = True, st_mtime = 100\<rparr>,
              \<lparr>entry_path = ''/tmp/job/clip.mp4.part'', is_file = True, st_mtime = 300\<rparr>,
              \<lparr>entry_path = ''/tmp/job/sub'', is_file = False, st_mtime = 400\<rparr>,
              \<lparr>entry_path = ''/tmp/job/sub/clip.mp4'', is_file = True, st_mtime = 200\<rparr>])
     None ''https://youtu.be/x'' 1 None ''/tmp/job'' (Some ''best'') ()
   = Inr \<lparr>entry_path = ''/tmp/job/sub/clip.mp4'', is_file = True, st_mtime = 200\<rparr>"
proof -
  let ?run = "\<lambda>(w::unit) (cmd::string list). (\<lparr>returncode = 0, stdout = [], stderr = []\<rparr>, w)"
  let ?e1 = "\<lparr>entry_path = ''/tmp/job/clip.f137.mp4'', is_file = True, st_mtime = 100\<rparr>"
  let ?e4 = "\<lparr>entry_path = ''/tmp/job/sub/clip.mp4'', is_file = True, st_mtime = 200\<rparr>"
  let ?rglob = "\<lambda>(w::unit) (d::string).
             [?e1,
              \<lparr>entry_path = ''/tmp/job/clip.mp4.part'', is_file = True, st_mtime = 300\<rparr>,
              \<lparr>entry_path = ''/tmp/job/sub'', is_file = False, st_mtime = 400\<rparr>,
              ?e4]"
  have run: "run_yt_dlp_command ?run
               (download_cmd None ''https://youtu.be/x'' 1 None ''/tmp/job'' (Some ''best'')) ()
             = (\<lparr>returncode = 0, stdout = [], stderr = []\<rparr>, ())"
    by (simp add: run_yt_dlp_command_def)
  have files: "[?e1, ?e4] =
      filter (\<lambda>e. is_file e \<and> \<not> py_endswith (path_name (entry_path e)) ''.part'') (?rglob () ''/tmp/job'')"
    by code_simp
  from run_download_newest_file [of ?run None "''https://youtu.be/x''" 1 None "''/tmp/job''" "Some ''best''" "()" _ "()" "[?e1, ?e4]" ?rglob, OF run _ files]
  obtain f where f: "run_download ?run ?rglob None ''https://youtu.be/x'' 1 None ''/tmp/job'' (Some ''best'') () = Inr f"
    "f \<in> set [?e1, ?e4]" "\<forall>g \<in> set [?e1, ?e4]. st_mtime g \<le> st_mtime f"
    by auto
  then have "f = ?e4" by auto
  with f(1) show ?thesis by simp
qed

section \<open>Properties of URL classification\<close>

lemma host_matches_suffix: "host_matches h d \<Longrightarrow> suffix d h"
  by (auto simp: host_matches_def py_endswith_def suffix_def)

lemma platforms_apart:
  "\<forall>x \<in> set SUPPORTED_PLATFORMS. \<forall>y \<in> set SUPPORTED_PLATFORMS.
     \<forall>d \<in> set (snd x). \<forall>e \<in> set (snd y). suffix d e \<or> suffix e d \<longrightarrow> x = y"
  by code_simp

lemma domains_nonempty: "\<forall>x \<in> set SUPPORTED_PLATFORMS. \<forall>d \<in> set (snd x). d \<noteq> []"
  by code_simp

lemma find_unique:
  "\<forall>x \<in> set xs. \<forall>y \<in> set xs. P x \<longrightarrow> P y \<longrightarrow> x = y \<Longrightarrow>
   find P xs = Some x \<longleftrightarrow> x \<in> set xs \<and> P x"
  by (induction xs) auto

lemma platform_match_unique:
  assumes "x \<in> set SUPPORTED_PLATFORMS" "y \<in> set SUPPORTED_PLATFORMS"
    and "list_ex (host_matches h) (snd x)" "list_ex (host_matches h) (snd y)"
  shows "x = y"
proof -
  from assms(3) obtain d where d: "d \<in> set (snd x)" "host_matches h d"
    by (auto simp: list_ex_iff)
  from assms(4) obtain e where e: "e \<in> set (snd y)" "host_matches h e"
    by (auto simp: list_ex_iff)
  have "suffix d e \<or> suffix e d"
    using d(2) e(2) host_matches_suffix suffix_same_cases by blast
  then show ?thesis
    using platforms_apart assms(1,2) d(1) e(1) by blast
qed

lemma find_platform:
  "find (\<lambda>(platform, domains). list_ex (host_matches h) domains) SUPPORTED_PLATFORMS = Some x
     \<longleftrightarrow> x \<in> set SUPPORTED_PLATFORMS \<and> list_ex (host_matches h) (snd x)"
proof -
  have "\<forall>x \<in> set SUPPORTED_PLATFORMS. \<forall>y \<in> set SUPPORTED_PLATFORMS.
          (\<lambda>(platform, domains). list_ex (host_matches h) domains) x \<longrightarrow>
          (\<lambda>(platform, domains). list_ex (host_matches h) domains) y \<longrightarrow> x = y"
    using platform_match_unique by (auto simp: case_prod_beta)
  from find_unique [OF this, of x] show ?thesis
    by (simp add: case_prod_unfold)
qed

text \<open>
  What \<open>detect_platform\<close> computes, in terms of the parsed URL: a platform is returned
  exactly when the URL is not empty, parses, has the scheme http or https, and the text of
  its netloc before the first colon, lower-cased, matches one of the platform's domains.
  No host matches the domains of two platforms, so the order of the table does not matter.
\<close>

lemma detect_platform_Some_iff:
  "detect_platform urlparse url = Some p \<longleftrightarrow>
     url \<noteq> [] \<and>
     (\<exists>parsed. urlparse (py_strip url) = Some parsed \<and>
        scheme parsed \<in> {''http'', ''https''} \<and>
        (\<exists>ds. (p, ds) \<in> set SUPPORTED_PLATFORMS \<and>
           list_ex (host_matches (hd (py_split (CHR '':'') (py_lower (netloc parsed))))) ds))"
proof (cases "url = []")
  case True
  then show ?thesis by (simp add: detect_platform_def parse_web_url_def)
next
  case ne: False
  show ?thesis
  proof (cases "urlparse (py_strip url)")
    case None
    then show ?thesis using ne by (simp add: detect_platform_def parse_web_url_def)
  next
    case (Some parsed)
    define h where "h = hd (py_split (CHR '':'') (py_lower (netloc parsed)))"
    show ?thesis
    proof (cases "scheme parsed = ''http'' \<or> scheme parsed = ''https''")
      case False
      then show ?thesis using ne Some
        by (simp add: detect_platform_def parse_web_url_def Let_def)
    next
      case sch: True
      have nomatch: "\<not> list_ex (host_matches h) ds"
        if "h = []" "(p, ds) \<in> set SUPPORTED_PLATFORMS" for p ds
      proof
        assume "list_ex (host_matches h) ds"
        then obtain d where d: "d \<in> set ds" "host_matches h d" by (auto simp: list_ex_iff)
        then have "suffix d []" using that(1) host_matches_suffix by blast
        then have "d = []" by simp
        then show False using domains_nonempty that(2) d(1) by force
      qed
      have dp: "detect_platform urlparse url =
            (if h = [] then None
             else map_option fst
                    (find (\<lambda>(platform, domains). list_ex (host_matches h) domains)
                       SUPPORTED_PLATFORMS))"
        using ne Some sch unfolding detect_platform_def parse_web_url_def Let_def h_def
        by (simp only: if_False option.case if_True simp_thms insert_iff empty_iff split: if_splits) auto
      have rhs: "(url \<noteq> [] \<and>
           (\<exists>parsed. urlparse (py_strip url) = Some parsed \<and>
              scheme parsed \<in> {''http'', ''https''} \<and>
              (\<exists>ds. (p, ds) \<in> set SUPPORTED_PLATFORMS \<and>
                 list_ex (host_matches (hd (py_split (CHR '':'') (py_lower (netloc parsed))))) ds)))
           \<longleftrightarrow> (\<exists>ds. (p, ds) \<in> set SUPPORTED_PLATFORMS \<and> list_ex (host_matches h) ds)"
        using ne Some sch by (auto simp: h_def)
      show ?thesis
      proof (cases "h = []")
        case True
        then show ?thesis unfolding rhs dp using nomatch by auto
      next
        case False
        have "map_option fst
                (find (\<lambda>(platform, domains). list_ex (host_matches h) domains) SUPPORTED_PLATFORMS)
                = Some p
              \<longleftrightarrow> (\<exists>ds. (p, ds) \<in> set SUPPORTED_PLATFORMS \<and> list_ex (host_matches h) ds)"
          using find_platform [of h] by force
        then show ?thesis unfolding rhs dp using False by simp
      qed
    qed
  qed
qed

lemma py_split_nonempty: "py_split sep s \<noteq> []"
  by (induction s) (auto split: list.splits)

lemma hd_py_split: "hd (py_split sep s) = takeWhile (\<lambda>c. c \<noteq> sep) s"
  using py_split_nonempty [of sep] by (induction s) (auto split: list.splits)

lemma py_lower_char_colon: "py_lower_char c = CHR '':'' \<longleftrightarrow> c = CHR '':''"
proof (cases "65 \<le> (of_char c :: nat) \<and> (of_char c :: nat) \<le> 90")
  case True
  then have eq: "py_lower_char c = char_of (of_char c + 32 :: nat)"
    by (simp add: py_lower_char_def)
  have "(of_char (char_of (of_char c + 32 :: nat)) :: nat) = (of_char c + 32) mod 256"
    by (simp only: of_char_of)
  also have "\<dots> = of_char c + 32" using True by simp
  finally have v: "(of_char (py_lower_char c) :: nat) = of_char c + 32"
    using eq by simp
  have "py_lower_char c \<noteq> CHR '':''"
  proof
    assume "py_lower_char c = CHR '':''"
    then have "(of_char (py_lower_char c) :: nat) = 58" by simp
    with v True show False by simp
  qed
  moreover have "c \<noteq> CHR '':''" using True by auto
  ultimately show ?thesis by simp
next
  case False
  then show ?thesis by (auto simp: py_lower_char_def Let_def)
qed

lemma takeWhile_colon_lower:
  "takeWhile (\<lambda>c. c \<noteq> CHR '':'') (py_lower n) = py_lower (takeWhile (\<lambda>c. c \<noteq> CHR '':'') n)"
  by (induction n) (simp_all add: py_lower_def py_lower_char_colon)

text \<open>
  For a netloc without user information, the host that \<open>parse_web_url\<close> computes is the
  host of the URL.
\<close>

lemma host_without_userinfo:
  assumes "CHR ''@'' \<notin> set n"
  shows "hd (py_split (CHR '':'') (py_lower n)) = url_host_spec n"
proof -
  from assms have "\<forall>c \<in> set (rev n). c \<noteq> CHR ''@''" by auto
  then have tw: "takeWhile (\<lambda>c. c \<noteq> CHR ''@'') (rev n) = rev n"
    by (simp only: takeWhile_eq_all_conv)
  show ?thesis
    unfolding url_host_spec_def tw hd_py_split takeWhile_colon_lower by simp
qed

text \<open>
  Claim C7 does not hold of the code when the URL carries user information. For
  \<^verbatim>\<open>https://www.instagram.com:x@evil.example/v\<close> the parser reports the netloc
  \<^verbatim>\<open>www.instagram.com:x@evil.example\<close>: the host of the URL is \<^verbatim>\<open>evil.example\<close>, which
  matches no supported domain, yet \<open>detect_platform\<close> answers Instagram, since it takes
  the text before the first colon for the host. For
  \<^verbatim>\<open>https://user:pw@www.instagram.com/p/abc/\<close> the host is a subdomain of
  \<^verbatim>\<open>instagram.com\<close>, yet the answer is none.
\<close>

theorem detect_platform_userinfo:
  "url_host_spec ''www.instagram.com:x@evil.example'' = ''evil.example'' \<and>
   \<not> list_ex (\<lambda>(platform, domains). list_ex (host_matches ''evil.example'') domains)
        SUPPORTED_PLATFORMS \<and>
   detect_platform
     (\<lambda>u. if u = ''https://www.instagram.com:x@evil.example/v''
          then Some \<lparr>scheme = ''https'', netloc = ''www.instagram.com:x@evil.example'', path = ''/v''\<rparr>
          else None)
     ''https://www.instagram.com:x@evil.example/v'' = Some ''Instagram'' \<and>
   url_host_spec ''user:pw@www.instagram.com'' = ''www.instagram.com'' \<and>
   host_matches ''www.instagram.com'' ''instagram.com'' \<and>
   detect_platform
     (\<lambda>u. if u = ''https://user:pw@www.instagram.com/p/abc/''
          then Some \<lparr>scheme = ''https'', netloc = ''user:pw@www.instagram.com'', path = ''/p/abc/''\<rparr>
          else None)
     ''https://user:pw@www.instagram.com/p/abc/'' = None"
  by code_simp

section \<open>Properties of format selection\<close>
















































end
